theory Spec2Isabelle
  imports Complex_Main "HOL-Library.Multiset" "HOL-Library.Product_Lexorder"
begin

section \<open>Data model\<close>

text \<open>
  The timeline system (\<^verbatim>\<open>TimelineSystem.cpp\<close>), the transition callbacks
  (\<^verbatim>\<open>TimelineBehavior.h\<close>) and the sort of the rendering system (\<^verbatim>\<open>Graphics.cpp\<close>)
  are part of the sources. The declarations they rest on (\<^verbatim>\<open>ComponentList.h\<close>,
  \<^verbatim>\<open>Coordinator.h\<close>, \<^verbatim>\<open>System.h\<close>, \<^verbatim>\<open>EngineState.h\<close>) are not; the types below
  follow the specification's data model and the way the sources use each field.
  \<^verbatim>\<open>float\<close> quantities (timers, delays, \<^verbatim>\<open>deltaTime\<close>) are modelled as exact real
  numbers: rounding is abstracted away.
\<close>

text \<open>Modelled from the spec: \<^verbatim>\<open>Entity\<close>, an opaque integer handle. The sources compare
  it with \<^verbatim>\<open>std::numeric_limits<Entity>::max()\<close>, order it with \<^verbatim>\<open><\<close> and print it, so
  it is unsigned; only equality, order and the decimal rendering are used here.\<close>

type_synonym Entity = nat

text \<open>Modelled from the spec: \<^verbatim>\<open>Layer\<close>, the layer identifier. The sources treat it as
  an enumeration (the editor converts it to \<^verbatim>\<open>int\<close> and back); it is represented by the
  integer value of its enumerator, which is what \<^verbatim>\<open><\<close> compares.\<close>

type_synonym Layer = int

text \<open>
  Modelled from the spec: \<^verbatim>\<open>TimelineComponent\<close> (declared in \<^verbatim>\<open>ComponentList.h\<close>), with
  the fields the specification lists and \<^verbatim>\<open>TimelineSystem.cpp\<close>, \<^verbatim>\<open>TimelineBehavior.h\<close>
  and the component editor in \<^verbatim>\<open>Graphics.cpp\<close> read and write. The two callback members
  \<^verbatim>\<open>TransitionIn\<close> and \<^verbatim>\<open>TransitionOut\<close>, which the code tests before calling, are
  either empty (\<open>None\<close>) or bound to a function of the timeline function registry, which is
  identified by the name it was registered under.
\<close>

record TimelineComponent =
  Active :: bool
  IsTransitioningIn :: bool
  InternalTimer :: real
  DelayAccumulated :: real
  DelayOutAccumulated :: real
  TransitionInDelay :: real
  TransitionOutDelay :: real
  TransitionDuration :: real
  TransitionIn :: "string option"
  TransitionOut :: "string option"
  TimelineTag :: string
  startPosition :: real
  endPosition :: real
  Variable_1 :: real
  Variable_2 :: real
  Variable_3 :: real

text \<open>Modelled from the spec: \<^verbatim>\<open>LayerComponent\<close> (declared in \<^verbatim>\<open>ComponentList.h\<close>):
  the layer and the \<^verbatim>\<open>int\<close> sort id the comparator of the rendering system reads.\<close>

record LayerComponent =
  layerID :: Layer
  sortID :: int

text \<open>Modelled from the spec: \<^verbatim>\<open>TransformComponent\<close> (declared in
  \<^verbatim>\<open>ComponentList.h\<close>), reduced to the position the callbacks write.\<close>

record TransformComponent =
  position_x :: real
  position_y :: real

text \<open>Modelled from the spec: the part of the global \<^verbatim>\<open>engineState\<close> (declared in
  \<^verbatim>\<open>EngineState.h\<close>) that the timeline system reads: the result of \<^verbatim>\<open>IsPlay()\<close> and
  the visibility map keyed by layer, read with \<^verbatim>\<open>layerVisibility[layerID]\<close>.\<close>

record EngineState =
  IsPlay :: bool
  layerVisibility :: "Layer \<Rightarrow> bool"

text \<open>
  Modelled from the spec: the state the timeline system works on. It holds the component
  arrays of the coordinator \<^verbatim>\<open>ecsInterface\<close> (one slot per entity), the tag store
  (\<^verbatim>\<open>GetTagsOfEntity\<close> returns an unordered set of strings), the engine state, the member
  set \<^verbatim>\<open>mEntities\<close> of the timeline system (its elements in iteration order) and the two
  console streams. Every member of \<^verbatim>\<open>mEntities\<close> is taken to hold the three components
  the loop fetches; fetching a missing component is a precondition violation that is not
  part of the model.
\<close>

record World =
  timelines :: "Entity \<Rightarrow> TimelineComponent"
  transforms :: "Entity \<Rightarrow> TransformComponent"
  layers :: "Entity \<Rightarrow> LayerComponent"
  tags :: "Entity \<Rightarrow> string set"
  engineState :: EngineState
  mEntities :: "Entity list"
  cout :: string
  cerr :: string

text \<open>
  A transition callback has the C++ type \<^verbatim>\<open>void(Entity, float)\<close> and reaches the whole
  engine through globals, so it is a transformer of the world. The registry maps the name
  a callback was registered under to that transformer.
\<close>

type_synonym Callback = "Entity \<Rightarrow> real \<Rightarrow> World \<Rightarrow> World"
type_synonym Registry = "string \<Rightarrow> Callback"

section \<open>Coordinator operations used by the timeline system\<close>

text \<open>Writing through the reference \<^verbatim>\<open>GetComponent<TimelineComponent>(entity)\<close> returns.\<close>

definition upd_timeline ::
  "Entity \<Rightarrow> (TimelineComponent \<Rightarrow> TimelineComponent) \<Rightarrow> World \<Rightarrow> World" where
  "upd_timeline entity f w = w\<lparr>timelines := (timelines w)(entity := f (timelines w entity))\<rparr>"

text \<open>Modelled from the spec: \<^verbatim>\<open>HasTag(entity, tag)\<close> of the coordinator
  (\<^verbatim>\<open>Coordinator.h\<close> is not part of the sources): whether the entity carries the tag.\<close>

definition HasTag :: "World \<Rightarrow> Entity \<Rightarrow> string \<Rightarrow> bool" where
  "HasTag w entity tag \<longleftrightarrow> tag \<in> tags w entity"

text \<open>Modelled from the spec: \<^verbatim>\<open>AddTag(entity, tag)\<close> of the coordinator: the tag is
  attached to the entity's tag set.\<close>

definition AddTag :: "Entity \<Rightarrow> string \<Rightarrow> World \<Rightarrow> World" where
  "AddTag entity tag w = w\<lparr>tags := (tags w)(entity := insert tag (tags w entity))\<rparr>"

section \<open>TimelineSystem::Update\<close>

text \<open>Lines 60 to 63: the tag is applied only when the entity does not carry it yet.\<close>

definition ensure_tag :: "Entity \<Rightarrow> World \<Rightarrow> World" where
  "ensure_tag entity w =
     (if \<not> HasTag w entity (TimelineTag (timelines w entity))
      then AddTag entity (TimelineTag (timelines w entity)) w
      else w)"

text \<open>Calling a \<^verbatim>\<open>std::function\<close> member guarded by \<^verbatim>\<open>if (timeline.TransitionIn)\<close>.\<close>

definition invoke :: "Registry \<Rightarrow> string option \<Rightarrow> Entity \<Rightarrow> real \<Rightarrow> World \<Rightarrow> World" where
  "invoke cb f entity timer w = (case f of None \<Rightarrow> w | Some n \<Rightarrow> cb n entity timer w)"

text \<open>
  The body of the loop over \<^verbatim>\<open>mEntities\<close> (lines 50 to 110) follows, in pieces.
  \<^verbatim>\<open>timeline\<close> is a reference into the component array, so every read after a callback
  returns sees what the callback wrote.
\<close>

text \<open>Lines 84 to 89: the completion test of the in phase, on the timer the component
  holds when the test is reached.\<close>

definition finish_in :: "Entity \<Rightarrow> World \<Rightarrow> World" where
  "finish_in entity w =
     (if TransitionDuration (timelines w entity) \<le> InternalTimer (timelines w entity)
      then upd_timeline entity
             (\<lambda>c. c\<lparr>IsTransitioningIn := False, InternalTimer := 0, DelayAccumulated := 0\<rparr>) w
      else w)"

text \<open>Lines 106 to 109: the completion test of the out phase.\<close>

definition finish_out :: "Entity \<Rightarrow> World \<Rightarrow> World" where
  "finish_out entity w =
     (if TransitionDuration (timelines w entity) \<le> InternalTimer (timelines w entity)
      then upd_timeline entity (\<lambda>c. c\<lparr>Active := False\<rparr>) w
      else w)"

text \<open>Lines 71 to 90.\<close>

definition transition_in :: "Registry \<Rightarrow> real \<Rightarrow> Entity \<Rightarrow> World \<Rightarrow> World" where
  "transition_in cb deltaTime entity w =
     (let w1 = upd_timeline entity
                 (\<lambda>c. c\<lparr>DelayAccumulated := DelayAccumulated c + deltaTime\<rparr>) w
      in if DelayAccumulated (timelines w1 entity) < TransitionInDelay (timelines w1 entity)
         then w1
         else
           let w2 = upd_timeline entity
                      (\<lambda>c. c\<lparr>InternalTimer := InternalTimer c + deltaTime\<rparr>) w1
           in finish_in entity
                (invoke cb (TransitionIn (timelines w2 entity)) entity
                   (InternalTimer (timelines w2 entity)) w2))"

text \<open>Lines 93 to 110.\<close>

definition transition_out :: "Registry \<Rightarrow> real \<Rightarrow> Entity \<Rightarrow> World \<Rightarrow> World" where
  "transition_out cb deltaTime entity w =
     (let w1 = upd_timeline entity
                 (\<lambda>c. c\<lparr>DelayOutAccumulated := DelayOutAccumulated c + deltaTime\<rparr>) w
      in if DelayOutAccumulated (timelines w1 entity) < TransitionOutDelay (timelines w1 entity)
         then w1
         else
           let w2 = upd_timeline entity
                      (\<lambda>c. c\<lparr>InternalTimer := InternalTimer c + deltaTime\<rparr>) w1
           in finish_out entity
                (invoke cb (TransitionOut (timelines w2 entity)) entity
                   (InternalTimer (timelines w2 entity)) w2))"

text \<open>Lines 50 to 110: the layer test, the tag, the \<^verbatim>\<open>Active\<close> test, then the phase.\<close>

definition Update_entity :: "Registry \<Rightarrow> real \<Rightarrow> Entity \<Rightarrow> World \<Rightarrow> World" where
  "Update_entity cb deltaTime entity w =
     (if \<not> layerVisibility (engineState w) (layerID (layers w entity)) then w
      else
        let w1 = ensure_tag entity w
        in if \<not> Active (timelines w1 entity) then w1
           else if IsTransitioningIn (timelines w1 entity)
                then transition_in cb deltaTime entity w1
                else transition_out cb deltaTime entity w1)"

text \<open>
  \<^verbatim>\<open>TimelineSystem::Update\<close> (lines 42 to 112): nothing happens outside play mode;
  otherwise the loop body runs for the members in the iteration order of the set. The play
  mode is tested once, before the loop, and the loop runs over the members the set has
  when it starts.
\<close>

definition Update :: "Registry \<Rightarrow> real \<Rightarrow> World \<Rightarrow> World" where
  "Update cb deltaTime w =
     (if \<not> IsPlay (engineState w) then w
      else fold (Update_entity cb deltaTime) (mEntities w) w)"


section \<open>TimelineSystem::ToggleActive\<close>

text \<open>What \<^verbatim>\<open>operator<<\<close> writes for an unsigned integer: its decimal digits.\<close>

fun decimal :: "nat \<Rightarrow> string" where
  "decimal n = (if n < 10 then [''0123456789'' ! n]
                else decimal (n div 10) @ [''0123456789'' ! (n mod 10)])"

declare decimal.simps [simp del]

definition activated_message :: "string \<Rightarrow> Entity \<Rightarrow> string" where
  "activated_message tag entity =
     ''Timeline with tag '' @ [CHR 0x27] @ tag @ [CHR 0x27] @ '' activated for entity ''
       @ decimal entity @ ''.'' @ [CHR 0x0A]"

definition warning_message :: "string \<Rightarrow> string" where
  "warning_message tag =
     ''Warning: No timeline with tag '' @ [CHR 0x27] @ tag @ [CHR 0x27]
       @ '' found to activate.'' @ [CHR 0x0A]"

text \<open>The loop body of lines 118 to 125, on the pair of the local flag
  \<^verbatim>\<open>activated\<close> and the world.\<close>

definition ToggleActive_entity :: "string \<Rightarrow> Entity \<Rightarrow> bool \<times> World \<Rightarrow> bool \<times> World" where
  "ToggleActive_entity tag entity s =
     (case s of (activated, w) \<Rightarrow>
        if TimelineTag (timelines w entity) = tag
        then (True, (upd_timeline entity (\<lambda>c. c\<lparr>Active := True\<rparr>) w)
                      \<lparr>cout := cout w @ activated_message tag entity\<rparr>)
        else (activated, w))"

definition ToggleActive :: "string \<Rightarrow> World \<Rightarrow> World" where
  "ToggleActive tag w =
     (case fold (ToggleActive_entity tag) (mEntities w) (False, w) of
        (activated, w') \<Rightarrow>
          if \<not> activated then w'\<lparr>cerr := cerr w' @ warning_message tag\<rparr> else w')"

section \<open>Transition callbacks\<close>

text \<open>
  \<^verbatim>\<open>TimelineBehavior.h\<close>. Every callback that animates over the phase starts by computing
  the progress from the timer it is given (for instance \<^verbatim>\<open>SlideInTransition\<close>, lines 46 to
  49): the quotient by \<^verbatim>\<open>TransitionDuration\<close>, then \<^verbatim>\<open>std::min\<close> with 1. A duration of 0
  makes the C++ quotient infinite or undefined; the model is used with positive durations.
\<close>

definition progress :: "real \<Rightarrow> real \<Rightarrow> real" where
  "progress timer duration = min (timer / duration) 1"

text \<open>\<^verbatim>\<open>Lerp\<close>, lines 37 to 39.\<close>

definition Lerp :: "real \<Rightarrow> real \<Rightarrow> real \<Rightarrow> real" where
  "Lerp a b t = a + t * (b - a)"

text \<open>Writing through the reference \<^verbatim>\<open>GetComponent<TransformComponent>(entity)\<close> returns.\<close>

definition upd_transform ::
  "Entity \<Rightarrow> (TransformComponent \<Rightarrow> TransformComponent) \<Rightarrow> World \<Rightarrow> World" where
  "upd_transform entity f w = w\<lparr>transforms := (transforms w)(entity := f (transforms w entity))\<rparr>"

text \<open>
  \<^verbatim>\<open>Credits\<close>, lines 169 to 189, registered under the name \<^verbatim>\<open>CreditsY\<close>: a callback
  that writes the timer and the phase flag of its own component to loop.
\<close>

definition Credits :: Callback where
  "Credits entity timer w =
     (let timeline = timelines w entity;
          p = progress timer (TransitionDuration timeline);
          w1 = upd_transform entity
                 (\<lambda>t. t\<lparr>position_y := Lerp (startPosition timeline) (endPosition timeline) p\<rparr>) w
      in if 1 \<le> p
         then upd_timeline entity (\<lambda>c. c\<lparr>IsTransitioningIn := True\<rparr>)
                (upd_transform entity (\<lambda>t. t\<lparr>position_y := startPosition timeline\<rparr>)
                   (upd_timeline entity (\<lambda>c. c\<lparr>InternalTimer := 0\<rparr>) w1))
         else w1)"

section \<open>Graphics::Update: the render order\<close>

text \<open>The comparator handed to \<^verbatim>\<open>std::sort\<close> in \<^verbatim>\<open>Graphics::Update\<close> (lines 288 to 304),
  reading the layer components from the component array \<open>ls\<close>.\<close>

definition layer_less :: "(Entity \<Rightarrow> LayerComponent) \<Rightarrow> Entity \<Rightarrow> Entity \<Rightarrow> bool" where
  "layer_less ls a b =
     (let layerA = ls a; layerB = ls b
      in if layerID layerA \<noteq> layerID layerB then layerID layerA < layerID layerB
         else if sortID layerA \<noteq> sortID layerB then sortID layerA < sortID layerB
         else a < b)"

text \<open>
  \<^verbatim>\<open>std::sort\<close> is a library routine whose algorithm is left open; it is represented by
  insertion with the comparator. The result does not depend on this choice: every
  arrangement of the members that is in order for the comparator is the same list
  (part of the theorem on the render order).
\<close>

fun place :: "('a \<Rightarrow> 'a \<Rightarrow> bool) \<Rightarrow> 'a \<Rightarrow> 'a list \<Rightarrow> 'a list" where
  "place cmp x [] = [x]"
| "place cmp x (y # ys) = (if cmp x y then x # y # ys else y # place cmp x ys)"

fun std_sort :: "('a \<Rightarrow> 'a \<Rightarrow> bool) \<Rightarrow> 'a list \<Rightarrow> 'a list" where
  "std_sort cmp [] = []"
| "std_sort cmp (x # xs) = place cmp x (std_sort cmp xs)"

text \<open>\<^verbatim>\<open>sortedEntities\<close> after lines 285 to 304: the members of the rendering system
  (the elements of its \<^verbatim>\<open>mEntities\<close> set, in iteration order) are copied and sorted.\<close>

definition sortedEntities :: "(Entity \<Rightarrow> LayerComponent) \<Rightarrow> Entity list \<Rightarrow> Entity list" where
  "sortedEntities ls members = std_sort (layer_less ls) members"

text \<open>The sort key the comment of line 287 names: layer, then sort id, then entity id.\<close>

definition render_key :: "(Entity \<Rightarrow> LayerComponent) \<Rightarrow> Entity \<Rightarrow> Layer \<times> int \<times> Entity" where
  "render_key ls e = (layerID (ls e), sortID (ls e), e)"

section \<open>The state machine of one component\<close>

text \<open>Whether the layer of an entity is visible (the test of line 56).\<close>

definition visible :: "World \<Rightarrow> Entity \<Rightarrow> bool" where
  "visible w e \<longleftrightarrow> layerVisibility (engineState w) (layerID (layers w e))"

text \<open>
  The per-frame transition rules of the timeline state machine as the specification words
  them (rules 1, 3 and 4 of its section 4.4), on one component and without callbacks.
  It is compared below with what the loop body does to the component.
\<close>

definition timeline_step :: "real \<Rightarrow> TimelineComponent \<Rightarrow> TimelineComponent" where
  "timeline_step deltaTime c =
     (if \<not> Active c then c
      else if IsTransitioningIn c then
        (if DelayAccumulated c + deltaTime < TransitionInDelay c
         then c\<lparr>DelayAccumulated := DelayAccumulated c + deltaTime\<rparr>
         else if TransitionDuration c \<le> InternalTimer c + deltaTime
         then c\<lparr>IsTransitioningIn := False, InternalTimer := 0, DelayAccumulated := 0\<rparr>
         else c\<lparr>DelayAccumulated := DelayAccumulated c + deltaTime,
                InternalTimer := InternalTimer c + deltaTime\<rparr>)
      else
        (if DelayOutAccumulated c + deltaTime < TransitionOutDelay c
         then c\<lparr>DelayOutAccumulated := DelayOutAccumulated c + deltaTime\<rparr>
         else if TransitionDuration c \<le> InternalTimer c + deltaTime
         then c\<lparr>DelayOutAccumulated := DelayOutAccumulated c + deltaTime,
                InternalTimer := InternalTimer c + deltaTime, Active := False\<rparr>
         else c\<lparr>DelayOutAccumulated := DelayOutAccumulated c + deltaTime,
                InternalTimer := InternalTimer c + deltaTime\<rparr>))"

text \<open>
  Two components agree on the state machine: on every field the timeline system reads or
  writes. The start and end positions and the three slots \<open>Variable_1\<close> to \<open>Variable_3\<close>,
  which callbacks use for their own state, may differ.
\<close>

definition machine_eq :: "TimelineComponent \<Rightarrow> TimelineComponent \<Rightarrow> bool" where
  "machine_eq c c' \<longleftrightarrow>
     Active c' = Active c \<and> IsTransitioningIn c' = IsTransitioningIn c
     \<and> InternalTimer c' = InternalTimer c
     \<and> DelayAccumulated c' = DelayAccumulated c
     \<and> DelayOutAccumulated c' = DelayOutAccumulated c
     \<and> TransitionInDelay c' = TransitionInDelay c
     \<and> TransitionOutDelay c' = TransitionOutDelay c
     \<and> TransitionDuration c' = TransitionDuration c
     \<and> TransitionIn c' = TransitionIn c \<and> TransitionOut c' = TransitionOut c
     \<and> TimelineTag c' = TimelineTag c"


text \<open>
  Conditions on the callbacks, after the callback contract of the specification (a
  callback works on the other components of its own entity and on the three slots):
  \<^item> a callback invoked for another entity does not write the component of \<open>e\<close>;
  \<^item> the callback bound in a slot \<open>f\<close> of \<open>e\<close>, if any, leaves the state machine fields of
    the component of \<open>e\<close> as they are;
  \<^item> no callback changes what decides whether \<open>e\<close> is processed: its layer, the engine
    state, the member set.
\<close>

definition others_keep_timeline :: "Registry \<Rightarrow> Entity \<Rightarrow> bool" where
  "others_keep_timeline cb e \<longleftrightarrow>
     (\<forall>n e' t w. e' \<noteq> e \<longrightarrow> timelines (cb n e' t w) e = timelines w e)"

definition own_keeps_machine :: "Registry \<Rightarrow> Entity \<Rightarrow> string option \<Rightarrow> bool" where
  "own_keeps_machine cb e f \<longleftrightarrow>
     (\<forall>n t w. f = Some n \<longrightarrow> machine_eq (timelines w e) (timelines (cb n e t w) e))"

definition keeps_schedule :: "Registry \<Rightarrow> Entity \<Rightarrow> bool" where
  "keeps_schedule cb e \<longleftrightarrow>
     (\<forall>n e' t w. layers (cb n e' t w) e = layers w e
                \<and> engineState (cb n e' t w) = engineState w
                \<and> mEntities (cb n e' t w) = mEntities w)"

text \<open>The entity is processed by every \<open>Update\<close> call: play mode, a visible layer, and
  membership in \<open>mEntities\<close> (whose elements are distinct, being a set).\<close>

definition scheduled :: "World \<Rightarrow> Entity \<Rightarrow> bool" where
  "scheduled w e \<longleftrightarrow>
     IsPlay (engineState w) \<and> visible w e \<and> e \<in> set (mEntities w) \<and> distinct (mEntities w)"

section \<open>Example worlds\<close>

text \<open>A default component and a world without members, which the examples below fill in.\<close>

definition timeline0 :: TimelineComponent where
  "timeline0 =
     \<lparr>Active = False, IsTransitioningIn = True, InternalTimer = 0, DelayAccumulated = 0,
      DelayOutAccumulated = 0, TransitionInDelay = 0, TransitionOutDelay = 0,
      TransitionDuration = 0, TransitionIn = None, TransitionOut = None, TimelineTag = [],
      startPosition = 0, endPosition = 0, Variable_1 = 0, Variable_2 = 0, Variable_3 = 0\<rparr>"

definition world0 :: World where
  "world0 =
     \<lparr>timelines = (\<lambda>_. timeline0),
      transforms = (\<lambda>_. \<lparr>position_x = 0, position_y = 0\<rparr>),
      layers = (\<lambda>_. \<lparr>layerID = 0, sortID = 0\<rparr>),
      tags = (\<lambda>_. {}),
      engineState = \<lparr>IsPlay = True, layerVisibility = (\<lambda>_. True)\<rparr>,
      mEntities = [],
      cout = [], cerr = []\<rparr>"

text \<open>Entities 1 and 3 share the tag \<open>Boss\<close>; entity 2 was left in its out phase.\<close>

definition boss_world :: World where
  "boss_world =
     world0\<lparr>timelines :=
              (\<lambda>e. if e = 2 then timeline0\<lparr>TimelineTag := ''Intro'', IsTransitioningIn := False,
                                           InternalTimer := 7 / 10, DelayOutAccumulated := 3\<rparr>
                   else timeline0\<lparr>TimelineTag := ''Boss''\<rparr>),
            mEntities := [1, 2, 3]\<rparr>"

text \<open>
  A callback that writes the timer it is given to the entity's x position and counts its
  calls in the slot \<open>Variable_1\<close>, and a registry that binds \<open>CreditsY\<close> to
  \<open>Credits\<close> and every other name to that callback.
\<close>

definition move_x :: Callback where
  "move_x entity timer w =
     upd_timeline entity (\<lambda>c. c\<lparr>Variable_1 := Variable_1 c + 1\<rparr>)
       (upd_transform entity (\<lambda>t. t\<lparr>position_x := timer\<rparr>) w)"

definition example_registry :: Registry where
  "example_registry n = (if n = ''CreditsY'' then Credits else move_x)"

text \<open>An active timeline with a bound callback while the engine is not in play mode.\<close>

definition paused_world :: World where
  "paused_world =
     world0\<lparr>timelines := (\<lambda>_. timeline0\<lparr>Active := True, TransitionIn := Some ''SlideIn''\<rparr>),
            engineState := \<lparr>IsPlay = False, layerVisibility = (\<lambda>_. True)\<rparr>,
            mEntities := [1]\<rparr>"


text \<open>Entity 5 is in its out phase, past the out delay, half a second before the end of
  the phase; entity 2 is processed before it and loops with \<open>Credits\<close>.\<close>

definition closing_world :: World where
  "closing_world =
     world0\<lparr>timelines :=
              (\<lambda>e. if e = 5
                   then timeline0\<lparr>Active := True, IsTransitioningIn := False,
                                  TransitionOutDelay := 1, DelayOutAccumulated := 1,
                                  TransitionDuration := 2, InternalTimer := 3 / 2,
                                  TransitionOut := Some ''SlideOut'', TimelineTag := ''Outro''\<rparr>
                   else timeline0\<lparr>Active := True, TransitionDuration := 1,
                                  TransitionIn := Some ''CreditsY'', TimelineTag := ''Roll''\<rparr>),
            mEntities := [2, 5]\<rparr>"

text \<open>No callback is bound: entity 5 is in its in phase with no delay, half a second before
  the end of the phase; entity 2 is in its out phase with no delay.\<close>

definition silent_world :: World where
  "silent_world =
     world0\<lparr>timelines :=
              (\<lambda>e. if e = 5
                   then timeline0\<lparr>Active := True, TransitionDuration := 2,
                                  InternalTimer := 3 / 2\<rparr>
                   else timeline0\<lparr>Active := True, IsTransitioningIn := False,
                                  TransitionDuration := 2, InternalTimer := 1 / 4\<rparr>),
            mEntities := [2, 5]\<rparr>"

text \<open>Four renderable entities on two layers; 2 and 3 agree on layer and sort id.\<close>

definition example_layers :: "Entity \<Rightarrow> LayerComponent" where
  "example_layers e =
     (if e = 7 then \<lparr>layerID = 2, sortID = 0\<rparr>
      else if e = 4 then \<lparr>layerID = 1, sortID = 3\<rparr>
      else \<lparr>layerID = 1, sortID = 5\<rparr>)"

section \<open>Outside play mode\<close>

text \<open>
  C2. Outside play mode \<open>Update\<close> returns the world it was given, whatever the callback
  registry is: no component field, no tag and no other state changes, and since the
  result does not depend on the registry no callback has run.
\<close>

theorem Update_not_playing_noop:
  "\<not> IsPlay (engineState w) \<Longrightarrow> Update cb deltaTime w = w"
  by (simp add: Update_def)

theorem Update_not_playing_noop_witness:
  "\<not> IsPlay (engineState paused_world)
   \<and> Update example_registry 1 paused_world = paused_world"
proof -
  have np: "\<not> IsPlay (engineState paused_world)"
    by (simp add: paused_world_def world0_def)
  show ?thesis
    using np Update_not_playing_noop [OF np, of example_registry 1] by simp
qed

section \<open>The loop body\<close>

lemma upd_timeline_simps [simp]:
  "timelines (upd_timeline e f w) e' = (if e' = e then f (timelines w e) else timelines w e')"
  "transforms (upd_timeline e f w) = transforms w"
  "layers (upd_timeline e f w) = layers w"
  "tags (upd_timeline e f w) = tags w"
  "engineState (upd_timeline e f w) = engineState w"
  "mEntities (upd_timeline e f w) = mEntities w"
  "cout (upd_timeline e f w) = cout w"
  "cerr (upd_timeline e f w) = cerr w"
  by (simp_all add: upd_timeline_def)

lemma upd_transform_simps [simp]:
  "transforms (upd_transform e f w) e' = (if e' = e then f (transforms w e) else transforms w e')"
  "timelines (upd_transform e f w) = timelines w"
  "layers (upd_transform e f w) = layers w"
  "tags (upd_transform e f w) = tags w"
  "engineState (upd_transform e f w) = engineState w"
  "mEntities (upd_transform e f w) = mEntities w"
  by (simp_all add: upd_transform_def)

lemma ensure_tag_simps [simp]:
  "timelines (ensure_tag e w) = timelines w"
  "transforms (ensure_tag e w) = transforms w"
  "layers (ensure_tag e w) = layers w"
  "engineState (ensure_tag e w) = engineState w"
  "mEntities (ensure_tag e w) = mEntities w"
  "cout (ensure_tag e w) = cout w"
  "cerr (ensure_tag e w) = cerr w"
  by (simp_all add: ensure_tag_def AddTag_def)

lemma ensure_tag_tags:
  "tags (ensure_tag e w) e' =
     (if e' = e then insert (TimelineTag (timelines w e)) (tags w e) else tags w e')"
  by (auto simp add: ensure_tag_def AddTag_def HasTag_def)

lemma upd_timeline_twice:
  "upd_timeline e f (upd_timeline e g w) = upd_timeline e (f \<circ> g) w"
  by (simp add: upd_timeline_def)

text \<open>The five ways through the loop body, for every registry.\<close>

lemma Update_entity_invisible:
  "\<not> visible w e \<Longrightarrow> Update_entity cb dt e w = w"
  by (simp add: Update_entity_def visible_def)

lemma Update_entity_inactive:
  "visible w e \<Longrightarrow> \<not> Active (timelines w e) \<Longrightarrow> Update_entity cb dt e w = ensure_tag e w"
  by (simp add: Update_entity_def visible_def)

lemma Update_entity_waiting_in:
  assumes "visible w e" "Active (timelines w e)" "IsTransitioningIn (timelines w e)"
    and "DelayAccumulated (timelines w e) + dt < TransitionInDelay (timelines w e)"
  shows "Update_entity cb dt e w =
           upd_timeline e (\<lambda>c. c\<lparr>DelayAccumulated := DelayAccumulated c + dt\<rparr>) (ensure_tag e w)"
  using assms by (simp add: Update_entity_def visible_def transition_in_def)

lemma Update_entity_running_in:
  assumes "visible w e" "Active (timelines w e)" "IsTransitioningIn (timelines w e)"
    and "\<not> DelayAccumulated (timelines w e) + dt < TransitionInDelay (timelines w e)"
  shows "Update_entity cb dt e w =
           finish_in e
             (invoke cb (TransitionIn (timelines w e)) e (InternalTimer (timelines w e) + dt)
                (upd_timeline e
                   (\<lambda>c. c\<lparr>DelayAccumulated := DelayAccumulated c + dt,
                           InternalTimer := InternalTimer c + dt\<rparr>) (ensure_tag e w)))"
  using assms
  by (simp add: Update_entity_def visible_def transition_in_def Let_def upd_timeline_twice comp_def)

lemma Update_entity_waiting_out:
  assumes "visible w e" "Active (timelines w e)" "\<not> IsTransitioningIn (timelines w e)"
    and "DelayOutAccumulated (timelines w e) + dt < TransitionOutDelay (timelines w e)"
  shows "Update_entity cb dt e w =
           upd_timeline e (\<lambda>c. c\<lparr>DelayOutAccumulated := DelayOutAccumulated c + dt\<rparr>)
             (ensure_tag e w)"
  using assms by (simp add: Update_entity_def visible_def transition_out_def)

lemma Update_entity_running_out:
  assumes "visible w e" "Active (timelines w e)" "\<not> IsTransitioningIn (timelines w e)"
    and "\<not> DelayOutAccumulated (timelines w e) + dt < TransitionOutDelay (timelines w e)"
  shows "Update_entity cb dt e w =
           finish_out e
             (invoke cb (TransitionOut (timelines w e)) e (InternalTimer (timelines w e) + dt)
                (upd_timeline e
                   (\<lambda>c. c\<lparr>DelayOutAccumulated := DelayOutAccumulated c + dt,
                           InternalTimer := InternalTimer c + dt\<rparr>) (ensure_tag e w)))"
  using assms
  by (simp add: Update_entity_def visible_def transition_out_def Let_def upd_timeline_twice comp_def)

text \<open>Agreement on the state machine is an equivalence that the step respects.\<close>

lemma machine_eq_refl [simp]: "machine_eq c c"
  by (simp add: machine_eq_def)

lemma machine_eq_sym: "machine_eq c c' \<Longrightarrow> machine_eq c' c"
  by (simp add: machine_eq_def)





lemma timeline_step_inactive: "\<not> Active c \<Longrightarrow> timeline_step dt c = c"
  by (simp add: timeline_step_def)

text \<open>What the callback conditions give for one guarded call.\<close>

lemma invoke_own:
  "own_keeps_machine cb e f \<Longrightarrow> machine_eq (timelines w e) (timelines (invoke cb f e t w) e)"
  by (cases f) (simp_all add: invoke_def own_keeps_machine_def)

lemma invoke_other:
  "others_keep_timeline cb e \<Longrightarrow> e' \<noteq> e \<Longrightarrow> timelines (invoke cb f e' t w) e = timelines w e"
  by (cases f) (simp_all add: invoke_def others_keep_timeline_def)


lemma finish_simps [simp]:
  "layers (finish_in e w) = layers w" "engineState (finish_in e w) = engineState w"
  "mEntities (finish_in e w) = mEntities w" "tags (finish_in e w) = tags w"
  "transforms (finish_in e w) = transforms w"
  "layers (finish_out e w) = layers w" "engineState (finish_out e w) = engineState w"
  "mEntities (finish_out e w) = mEntities w" "tags (finish_out e w) = tags w"
  "transforms (finish_out e w) = transforms w"
  by (simp_all add: finish_in_def finish_out_def)

lemma finish_other:
  "e' \<noteq> e \<Longrightarrow> timelines (finish_in e' w) e = timelines w e"
  "e' \<noteq> e \<Longrightarrow> timelines (finish_out e' w) e = timelines w e"
  by (simp_all add: finish_in_def finish_out_def)

text \<open>The loop body on the component of its own entity, against the state machine.\<close>

lemma Update_entity_step_in:
  assumes own: "own_keeps_machine cb e (TransitionIn (timelines w e))"
    and vis: "visible w e" and tin: "IsTransitioningIn (timelines w e)"
  shows "machine_eq (timeline_step dt (timelines w e)) (timelines (Update_entity cb dt e w) e)"
proof -
  let ?c = "timelines w e"
  consider (idle) "\<not> Active ?c"
    | (wait) "Active ?c" "DelayAccumulated ?c + dt < TransitionInDelay ?c"
    | (go) "Active ?c" "\<not> DelayAccumulated ?c + dt < TransitionInDelay ?c"
    by blast
  then show ?thesis
  proof cases
    case idle
    then show ?thesis
      by (simp add: Update_entity_inactive [OF vis] timeline_step_def)
  next
    case wait
    then show ?thesis
      using tin by (simp add: Update_entity_waiting_in [OF vis] timeline_step_def machine_eq_def)
  next
    case go
    let ?w2 = "upd_timeline e
                 (\<lambda>c. c\<lparr>DelayAccumulated := DelayAccumulated c + dt,
                         InternalTimer := InternalTimer c + dt\<rparr>) (ensure_tag e w)"
    let ?w3 = "invoke cb (TransitionIn ?c) e (InternalTimer ?c + dt) ?w2"
    have m: "machine_eq (timelines ?w2 e) (timelines ?w3 e)"
      using own by (rule invoke_own)
    have u: "Update_entity cb dt e w = finish_in e ?w3"
      using go tin by (simp add: Update_entity_running_in [OF vis])
    show ?thesis
      unfolding u using m go tin
      by (simp add: finish_in_def timeline_step_def machine_eq_def)
  qed
qed

lemma Update_entity_step_out:
  assumes own: "own_keeps_machine cb e (TransitionOut (timelines w e))"
    and vis: "visible w e" and out: "\<not> IsTransitioningIn (timelines w e)"
  shows "machine_eq (timeline_step dt (timelines w e)) (timelines (Update_entity cb dt e w) e)"
proof -
  let ?c = "timelines w e"
  consider (idle) "\<not> Active ?c"
    | (wait) "Active ?c" "DelayOutAccumulated ?c + dt < TransitionOutDelay ?c"
    | (go) "Active ?c" "\<not> DelayOutAccumulated ?c + dt < TransitionOutDelay ?c"
    by blast
  then show ?thesis
  proof cases
    case idle
    then show ?thesis
      by (simp add: Update_entity_inactive [OF vis] timeline_step_def)
  next
    case wait
    then show ?thesis
      using out by (simp add: Update_entity_waiting_out [OF vis] timeline_step_def machine_eq_def)
  next
    case go
    let ?w2 = "upd_timeline e
                 (\<lambda>c. c\<lparr>DelayOutAccumulated := DelayOutAccumulated c + dt,
                         InternalTimer := InternalTimer c + dt\<rparr>) (ensure_tag e w)"
    let ?w3 = "invoke cb (TransitionOut ?c) e (InternalTimer ?c + dt) ?w2"
    have m: "machine_eq (timelines ?w2 e) (timelines ?w3 e)"
      using own by (rule invoke_own)
    have u: "Update_entity cb dt e w = finish_out e ?w3"
      using go out by (simp add: Update_entity_running_out [OF vis])
    show ?thesis
      unfolding u using m go out
      by (simp add: finish_out_def timeline_step_def machine_eq_def)
  qed
qed


lemma Update_entity_other:
  assumes k: "others_keep_timeline cb e" and ne: "e' \<noteq> e"
  shows "timelines (Update_entity cb dt e' w) e = timelines w e"
  using invoke_other [OF k ne] ne
  by (simp add: Update_entity_def transition_in_def transition_out_def Let_def finish_other)


lemma Update_entity_frozen:
  assumes k: "others_keep_timeline cb e" and ina: "\<not> Active (timelines w e)"
  shows "timelines (Update_entity cb dt e' w) e = timelines w e"
proof (cases "e' = e")
  case True
  then show ?thesis
    using ina by (cases "visible w e")
      (simp_all add: Update_entity_inactive Update_entity_invisible)
next
  case False
  then show ?thesis by (rule Update_entity_other [OF k])
qed

section \<open>The frame loop\<close>




lemma fold_Update_entity_frozen:
  assumes k: "others_keep_timeline cb e"
  shows "\<not> Active (timelines w e) \<Longrightarrow>
         timelines (fold (Update_entity cb dt) es w) e = timelines w e"
proof (induction es arbitrary: w)
  case Nil
  show ?case by simp
next
  case (Cons x es)
  have t: "timelines (Update_entity cb dt x w) e = timelines w e"
    using Cons.prems by (rule Update_entity_frozen [OF k])
  then show ?case
    using Cons.IH [of "Update_entity cb dt x w"] Cons.prems by simp
qed

lemma Update_frozen:
  "others_keep_timeline cb e \<Longrightarrow> \<not> Active (timelines w e) \<Longrightarrow>
   timelines (Update cb dt w) e = timelines w e"
  by (simp add: Update_def fold_Update_entity_frozen)




section \<open>The scenario on one component\<close>





section \<open>Reactivation by tag\<close>

lemma toggle_step:
  "ToggleActive_entity tag entity (a, w) =
     (if TimelineTag (timelines w entity) = tag
      then (True, (upd_timeline entity (\<lambda>c. c\<lparr>Active := True\<rparr>) w)
                    \<lparr>cout := cout w @ activated_message tag entity\<rparr>)
      else (a, w))"
  by (simp add: ToggleActive_entity_def)

lemma toggle_loop_timelines:
  "timelines (snd (fold (ToggleActive_entity tag) es (a, w))) e =
     (if e \<in> set es \<and> TimelineTag (timelines w e) = tag
      then (timelines w e)\<lparr>Active := True\<rparr> else timelines w e)"
proof (induction es arbitrary: a w)
  case Nil
  show ?case by simp
next
  case (Cons x es)
  show ?case
    by (simp add: toggle_step upd_timeline_def Cons.IH)
qed

lemma toggle_loop_flag:
  "fst (fold (ToggleActive_entity tag) es (a, w)) \<longleftrightarrow>
     a \<or> (\<exists>e \<in> set es. TimelineTag (timelines w e) = tag)"
proof (induction es arbitrary: a w)
  case Nil
  show ?case by simp
next
  case (Cons x es)
  have tagfix: "\<And>e. TimelineTag (timelines (upd_timeline x (\<lambda>c. c\<lparr>Active := True\<rparr>) w) e)
                   = TimelineTag (timelines w e)"
    by (simp add: upd_timeline_def)
  show ?case
    by (auto simp add: toggle_step Cons.IH tagfix simp del: upd_timeline_simps)
qed

lemma toggle_loop_rest:
  "transforms (snd (fold (ToggleActive_entity tag) es (a, w))) = transforms w \<and>
   layers (snd (fold (ToggleActive_entity tag) es (a, w))) = layers w \<and>
   tags (snd (fold (ToggleActive_entity tag) es (a, w))) = tags w \<and>
   engineState (snd (fold (ToggleActive_entity tag) es (a, w))) = engineState w \<and>
   mEntities (snd (fold (ToggleActive_entity tag) es (a, w))) = mEntities w \<and>
   cerr (snd (fold (ToggleActive_entity tag) es (a, w))) = cerr w"
proof (induction es arbitrary: a w)
  case Nil
  show ?case by simp
next
  case (Cons x es)
  show ?case
    by (simp add: toggle_step upd_timeline_def Cons.IH)
qed

lemma toggle_loop_cout:
  "cout (snd (fold (ToggleActive_entity tag) es (a, w))) =
     cout w @ concat (map (activated_message tag)
                        (filter (\<lambda>e. TimelineTag (timelines w e) = tag) es))"
proof (induction es arbitrary: a w)
  case Nil
  show ?case by simp
next
  case (Cons x es)
  have tagfix: "\<And>e. TimelineTag (timelines (upd_timeline x (\<lambda>c. c\<lparr>Active := True\<rparr>) w) e)
                   = TimelineTag (timelines w e)"
    by (simp add: upd_timeline_def)
  show ?case
    by (simp add: toggle_step Cons.IH tagfix del: upd_timeline_simps)
qed

lemma toggle_loop_no_match:
  "\<forall>e \<in> set es. TimelineTag (timelines w e) \<noteq> tag \<Longrightarrow>
   fold (ToggleActive_entity tag) es (a, w) = (a, w)"
  by (induction es arbitrary: a w) (simp_all add: toggle_step)


text \<open>
  C4. \<open>ToggleActive tag\<close> leaves every \<open>Active\<close> flag as it was except that it is set for
  each member of \<open>mEntities\<close> whose \<open>TimelineTag\<close> equals \<open>tag\<close> (any number of them).
  When no member carries the tag, the world is unchanged apart from the warning appended
  to \<open>cerr\<close>; when some member does, nothing is written to \<open>cerr\<close>. The function has no
  failing branch: it returns a world for every input.
\<close>

theorem ToggleActive_by_tag:
  "(\<forall>e. Active (timelines (ToggleActive tag w) e) \<longleftrightarrow>
          Active (timelines w e) \<or> (e \<in> set (mEntities w) \<and> TimelineTag (timelines w e) = tag))
   \<and> ((\<forall>e \<in> set (mEntities w). TimelineTag (timelines w e) \<noteq> tag) \<longrightarrow>
          ToggleActive tag w = w\<lparr>cerr := cerr w @ warning_message tag\<rparr>)
   \<and> ((\<exists>e \<in> set (mEntities w). TimelineTag (timelines w e) = tag) \<longrightarrow>
          cerr (ToggleActive tag w) = cerr w)"
proof (intro conjI allI impI)
  fix e
  have "timelines (ToggleActive tag w) e =
          timelines (snd (fold (ToggleActive_entity tag) (mEntities w) (False, w))) e"
    by (simp add: ToggleActive_def split: prod.splits)
  then show "Active (timelines (ToggleActive tag w) e) \<longleftrightarrow>
          Active (timelines w e) \<or> (e \<in> set (mEntities w) \<and> TimelineTag (timelines w e) = tag)"
    by (auto simp add: toggle_loop_timelines)
next
  assume "\<forall>e \<in> set (mEntities w). TimelineTag (timelines w e) \<noteq> tag"
  then have "fold (ToggleActive_entity tag) (mEntities w) (False, w) = (False, w)"
    by (rule toggle_loop_no_match)
  then show "ToggleActive tag w = w\<lparr>cerr := cerr w @ warning_message tag\<rparr>"
    by (simp add: ToggleActive_def)
next
  assume "\<exists>e \<in> set (mEntities w). TimelineTag (timelines w e) = tag"
  then have "fst (fold (ToggleActive_entity tag) (mEntities w) (False, w))"
    by (simp add: toggle_loop_flag)
  then have "ToggleActive tag w = snd (fold (ToggleActive_entity tag) (mEntities w) (False, w))"
    by (cases "fold (ToggleActive_entity tag) (mEntities w) (False, w)")
       (simp add: ToggleActive_def)
  then show "cerr (ToggleActive tag w) = cerr w"
    by (simp add: toggle_loop_rest)
qed

theorem ToggleActive_by_tag_witness:
  "Active (timelines (ToggleActive ''Boss'' boss_world) 1)
   \<and> Active (timelines (ToggleActive ''Boss'' boss_world) 3)
   \<and> \<not> Active (timelines (ToggleActive ''Boss'' boss_world) 2)
   \<and> cerr (ToggleActive ''Boss'' boss_world) = []
   \<and> ToggleActive ''Exit'' boss_world =
        boss_world\<lparr>cerr := ''Warning: No timeline with tag '' @ [CHR 0x27] @ ''Exit''
                              @ [CHR 0x27] @ '' found to activate.'' @ [CHR 0x0A]\<rparr>"
  using ToggleActive_by_tag [of "''Boss''" boss_world] ToggleActive_by_tag [of "''Exit''" boss_world]
  by (simp add: boss_world_def world0_def timeline0_def warning_message_def)

lemma ToggleActive_fields:
  "timelines (ToggleActive tag w) e =
     (if e \<in> set (mEntities w) \<and> TimelineTag (timelines w e) = tag
      then (timelines w e)\<lparr>Active := True\<rparr> else timelines w e)
   \<and> transforms (ToggleActive tag w) = transforms w
   \<and> layers (ToggleActive tag w) = layers w
   \<and> tags (ToggleActive tag w) = tags w
   \<and> engineState (ToggleActive tag w) = engineState w
   \<and> mEntities (ToggleActive tag w) = mEntities w"
proof -
  obtain a w' where f: "fold (ToggleActive_entity tag) (mEntities w) (False, w) = (a, w')"
    by (cases "fold (ToggleActive_entity tag) (mEntities w) (False, w)")
  have w': "w' = snd (fold (ToggleActive_entity tag) (mEntities w) (False, w))"
    by (simp add: f)
  have eq: "ToggleActive tag w = (if \<not> a then w'\<lparr>cerr := cerr w' @ warning_message tag\<rparr> else w')"
    by (simp add: ToggleActive_def f)
  have t: "timelines (ToggleActive tag w) = timelines w'"
    and r: "transforms (ToggleActive tag w) = transforms w'"
           "layers (ToggleActive tag w) = layers w'"
           "tags (ToggleActive tag w) = tags w'"
           "engineState (ToggleActive tag w) = engineState w'"
           "mEntities (ToggleActive tag w) = mEntities w'"
    by (simp_all add: eq)
  show ?thesis
    unfolding t r w' by (simp add: toggle_loop_timelines toggle_loop_rest)
qed

text \<open>
  C9. \<open>ToggleActive tag\<close> changes nothing but the \<open>Active\<close> field: the component of a
  member whose \<open>TimelineTag\<close> equals \<open>tag\<close> is the old one with \<open>Active\<close> set, so the phase
  flag, the timer and both delay accumulators are the ones it was left with; every other
  component, the tags, the layers, the transforms, the engine state and the member set
  are unchanged. Beyond that the call only writes its messages to the console streams.
\<close>

theorem ToggleActive_only_sets_Active:
  "timelines (ToggleActive tag w) e =
     (if e \<in> set (mEntities w) \<and> TimelineTag (timelines w e) = tag
      then (timelines w e)\<lparr>Active := True\<rparr> else timelines w e)
   \<and> transforms (ToggleActive tag w) = transforms w
   \<and> layers (ToggleActive tag w) = layers w
   \<and> tags (ToggleActive tag w) = tags w
   \<and> engineState (ToggleActive tag w) = engineState w
   \<and> mEntities (ToggleActive tag w) = mEntities w"
  by (rule ToggleActive_fields)

theorem ToggleActive_only_sets_Active_witness:
  "timelines (ToggleActive ''Intro'' boss_world) 2 =
     timeline0\<lparr>TimelineTag := ''Intro'', IsTransitioningIn := False,
               InternalTimer := 7 / 10, DelayOutAccumulated := 3, Active := True\<rparr>
   \<and> timelines (ToggleActive ''Intro'' boss_world) 1 = timelines boss_world 1
   \<and> tags (ToggleActive ''Intro'' boss_world) = tags boss_world"
  using ToggleActive_only_sets_Active [of "''Intro''" boss_world 2]
    ToggleActive_only_sets_Active [of "''Intro''" boss_world 1]
  by (simp add: boss_world_def world0_def timeline0_def)



section \<open>Facts about the example worlds\<close>

lemma Credits_other:
  "e' \<noteq> e \<Longrightarrow> timelines (Credits e' t w) e = timelines w e"
  by (simp add: Credits_def Let_def)

lemma example_registry_facts:
  "others_keep_timeline example_registry e"
  "keeps_schedule example_registry e"
  "own_keeps_machine example_registry e None"
  "own_keeps_machine example_registry e (Some ''SlideIn'')"
  "own_keeps_machine example_registry e (Some ''SlideOut'')"
  by (simp_all add: others_keep_timeline_def keeps_schedule_def own_keeps_machine_def
      example_registry_def move_x_def Credits_def Let_def machine_eq_def)


lemma closing_world_facts:
  "visible closing_world 5" "scheduled closing_world 5"
  "Active (timelines closing_world 5)" "\<not> IsTransitioningIn (timelines closing_world 5)"
  "\<not> DelayOutAccumulated (timelines closing_world 5) + 1
       < TransitionOutDelay (timelines closing_world 5)"
  "TransitionDuration (timelines closing_world 5) \<le> InternalTimer (timelines closing_world 5) + 1"
  "TimelineTag (timelines closing_world 5) = ''Outro''"
  "TransitionOut (timelines closing_world 5) = Some ''SlideOut''"
  "0 < TransitionDuration (timelines closing_world 5)"
  "TransitionIn (timelines closing_world 5) = None"
  "InternalTimer (timelines closing_world 5) = 3 / 2"
  "DelayOutAccumulated (timelines closing_world 5) = 1"
  "TransitionDuration (timelines closing_world 5) = 2"
  by (simp_all add: closing_world_def world0_def timeline0_def visible_def scheduled_def)

lemma silent_world_facts:
  "visible silent_world 5" "Active (timelines silent_world 5)"
  "IsTransitioningIn (timelines silent_world 5)"
  "TransitionIn (timelines silent_world 5) = None"
  "0 < TransitionDuration (timelines silent_world 5)"
  "visible silent_world 2" "Active (timelines silent_world 2)"
  "\<not> IsTransitioningIn (timelines silent_world 2)"
  "TransitionOut (timelines silent_world 2) = None"
  by (simp_all add: silent_world_def world0_def timeline0_def visible_def)

section \<open>The in phase\<close>



section \<open>Inactive entities\<close>

text \<open>
  C3. As stated the claim fails: the tag is ensured (lines 60 to 63) before the
  \<open>Active\<close> test (line 66), so an inactive entity on a visible layer that does not carry its
  \<open>TimelineTag\<close> yet gains it. Entity 3 of \<open>boss_world\<close> is inactive and untagged, and
  carries the tag \<open>Boss\<close> after one \<open>Update\<close>.
\<close>

theorem inactive_entity_gains_tag:
  "\<not> Active (timelines boss_world 3) \<and> visible boss_world 3
   \<and> tags boss_world 3 = {}
   \<and> tags (Update example_registry 1 boss_world) 3 = {''Boss''}"
  by (simp add: boss_world_def world0_def timeline0_def visible_def Update_def
      Update_entity_def ensure_tag_def HasTag_def AddTag_def)

text \<open>
  C3, amended. For an inactive entity on a visible layer the loop body only ensures the
  tag: the world it returns is the given one with the entity's \<open>TimelineTag\<close> in the
  entity's tag set, whatever the registry is, so no component of any entity changes, no
  callback runs and no other entity's tags change. Over a whole \<open>Update\<close> the component
  of the entity is unchanged when no callback invoked for another entity writes it.
\<close>

theorem inactive_entity_only_tagged:
  assumes vis: "visible w e" and ina: "\<not> Active (timelines w e)"
  shows "Update_entity cb dt e w = ensure_tag e w
     \<and> timelines (Update_entity cb dt e w) = timelines w
     \<and> tags (Update_entity cb dt e w) e = insert (TimelineTag (timelines w e)) (tags w e)
     \<and> (\<forall>e'. e' \<noteq> e \<longrightarrow> tags (Update_entity cb dt e w) e' = tags w e')
     \<and> (others_keep_timeline cb e \<longrightarrow> timelines (Update cb dt w) e = timelines w e)"
proof -
  have u: "Update_entity cb dt e w = ensure_tag e w"
    using vis ina by (rule Update_entity_inactive)
  show ?thesis
    unfolding u using ina by (simp add: ensure_tag_tags Update_frozen)
qed

theorem inactive_entity_only_tagged_witness:
  "visible boss_world 3 \<and> \<not> Active (timelines boss_world 3)
   \<and> others_keep_timeline example_registry 3
   \<and> Update_entity example_registry 1 3 boss_world = ensure_tag 3 boss_world
   \<and> timelines (Update_entity example_registry 1 3 boss_world) = timelines boss_world
   \<and> tags (Update_entity example_registry 1 3 boss_world) 3 = {''Boss''}
   \<and> tags (Update_entity example_registry 1 3 boss_world) 2 = {}
   \<and> timelines (Update example_registry 1 boss_world) 3 = timelines boss_world 3"
proof -
  have vis: "visible boss_world 3" and ina: "\<not> Active (timelines boss_world 3)"
    by (simp_all add: boss_world_def world0_def timeline0_def visible_def)
  have kt: "others_keep_timeline example_registry 3"
    by (rule example_registry_facts)
  note T = inactive_entity_only_tagged [OF vis ina, of example_registry 1]
  note c1 = T [THEN conjunct1]
  note c2 = T [THEN conjunct2, THEN conjunct1]
  note c3 = T [THEN conjunct2, THEN conjunct2, THEN conjunct1]
  note c4 = T [THEN conjunct2, THEN conjunct2, THEN conjunct2, THEN conjunct1, THEN spec,
               THEN mp, of 2]
  note c5 = T [THEN conjunct2, THEN conjunct2, THEN conjunct2, THEN conjunct2, THEN mp, OF kt]
  have t3: "tags (Update_entity example_registry 1 3 boss_world) 3 = {''Boss''}"
    unfolding c3 by (simp add: boss_world_def world0_def timeline0_def)
  have t2: "tags (Update_entity example_registry 1 3 boss_world) 2 = {}"
    using c4 by (simp add: boss_world_def world0_def)
  show ?thesis
    using vis ina kt c1 c2 t3 t2 c5 by (intro conjI)
qed

section \<open>Completion of the out phase\<close>




section \<open>Unbound callbacks\<close>



section \<open>Reactivation after completion\<close>



section \<open>Progress inside a callback\<close>

text \<open>
  C6. For a positive \<open>TransitionDuration\<close> the progress is non-decreasing in the timer,
  never exceeds 1 however far the timer overshoots, and is exactly 1 whenever the timer
  has reached the duration. In particular it is 1 for the timer handed to the callback on
  the frame at which the loop body ends a phase (clears the phase flag in the in phase,
  clears \<open>Active\<close> in the out phase), when the callback of that phase does not write the
  state machine fields itself.
\<close>

theorem progress_monotone_clamped:
  assumes pos: "0 < TransitionDuration (timelines w e)"
  shows
    "(t1 \<le> t2 \<longrightarrow> progress t1 (TransitionDuration (timelines w e))
                   \<le> progress t2 (TransitionDuration (timelines w e)))
     \<and> progress t (TransitionDuration (timelines w e)) \<le> 1
     \<and> (TransitionDuration (timelines w e) \<le> t \<longrightarrow>
          progress t (TransitionDuration (timelines w e)) = 1)
     \<and> (own_keeps_machine cb e (TransitionIn (timelines w e))
          \<and> visible w e \<and> Active (timelines w e) \<and> IsTransitioningIn (timelines w e)
          \<and> \<not> IsTransitioningIn (timelines (Update_entity cb dt e w) e) \<longrightarrow>
          progress (InternalTimer (timelines w e) + dt) (TransitionDuration (timelines w e)) = 1)
     \<and> (own_keeps_machine cb e (TransitionOut (timelines w e))
          \<and> visible w e \<and> Active (timelines w e) \<and> \<not> IsTransitioningIn (timelines w e)
          \<and> \<not> Active (timelines (Update_entity cb dt e w) e) \<longrightarrow>
          progress (InternalTimer (timelines w e) + dt) (TransitionDuration (timelines w e)) = 1)"
proof -
  let ?d = "TransitionDuration (timelines w e)"
  have mono: "progress t1 ?d \<le> progress t2 ?d" if "t1 \<le> t2"
  proof -
    have "t1 / ?d \<le> t2 / ?d"
      using that pos by (simp add: divide_right_mono)
    then show ?thesis by (simp add: progress_def min_def)
  qed
  have bound: "progress t ?d \<le> 1"
    by (simp add: progress_def)
  have full: "progress s ?d = 1" if "?d \<le> s" for s
  proof -
    have "1 \<le> s / ?d" using that pos by simp
    then show ?thesis by (simp add: progress_def min_def)
  qed
  have in_end: "progress (InternalTimer (timelines w e) + dt) ?d = 1"
    if h: "own_keeps_machine cb e (TransitionIn (timelines w e))
          \<and> visible w e \<and> Active (timelines w e) \<and> IsTransitioningIn (timelines w e)
          \<and> \<not> IsTransitioningIn (timelines (Update_entity cb dt e w) e)"
  proof -
    from h have "machine_eq (timeline_step dt (timelines w e))
                   (timelines (Update_entity cb dt e w) e)"
      by (intro Update_entity_step_in) simp_all
    with h have "\<not> IsTransitioningIn (timeline_step dt (timelines w e))"
      by (simp add: machine_eq_def)
    then have "?d \<le> InternalTimer (timelines w e) + dt"
      using h by (simp add: timeline_step_def split: if_splits)
    then show ?thesis by (rule full)
  qed
  have out_end: "progress (InternalTimer (timelines w e) + dt) ?d = 1"
    if h: "own_keeps_machine cb e (TransitionOut (timelines w e))
          \<and> visible w e \<and> Active (timelines w e) \<and> \<not> IsTransitioningIn (timelines w e)
          \<and> \<not> Active (timelines (Update_entity cb dt e w) e)"
  proof -
    from h have "machine_eq (timeline_step dt (timelines w e))
                   (timelines (Update_entity cb dt e w) e)"
      by (intro Update_entity_step_out) simp_all
    with h have "\<not> Active (timeline_step dt (timelines w e))"
      by (simp add: machine_eq_def)
    then have "?d \<le> InternalTimer (timelines w e) + dt"
      using h by (simp add: timeline_step_def split: if_splits)
    then show ?thesis by (rule full)
  qed
  show ?thesis
    using mono bound full in_end out_end by blast
qed

theorem progress_monotone_clamped_witness:
  "0 < TransitionDuration (timelines closing_world 5)
   \<and> (1::real) \<le> 3
   \<and> progress 1 (TransitionDuration (timelines closing_world 5))
        \<le> progress 3 (TransitionDuration (timelines closing_world 5))
   \<and> progress 1 (TransitionDuration (timelines closing_world 5)) = 1 / 2
   \<and> progress 100 (TransitionDuration (timelines closing_world 5)) \<le> 1
   \<and> TransitionDuration (timelines closing_world 5) \<le> 2
   \<and> progress 2 (TransitionDuration (timelines closing_world 5)) = 1
   \<and> own_keeps_machine example_registry 5 (TransitionIn (timelines silent_world 5))
   \<and> visible silent_world 5 \<and> Active (timelines silent_world 5)
   \<and> IsTransitioningIn (timelines silent_world 5)
   \<and> \<not> IsTransitioningIn (timelines (Update_entity example_registry 1 5 silent_world) 5)
   \<and> progress (InternalTimer (timelines silent_world 5) + 1)
        (TransitionDuration (timelines silent_world 5)) = 1
   \<and> own_keeps_machine example_registry 5 (TransitionOut (timelines closing_world 5))
   \<and> visible closing_world 5 \<and> Active (timelines closing_world 5)
   \<and> \<not> IsTransitioningIn (timelines closing_world 5)
   \<and> \<not> Active (timelines (Update_entity example_registry 1 5 closing_world) 5)
   \<and> progress (InternalTimer (timelines closing_world 5) + 1)
        (TransitionDuration (timelines closing_world 5)) = 1"
proof -
  note f = closing_world_facts
  note s = silent_world_facts
  note k = example_registry_facts [of 5]
  have own_s: "own_keeps_machine example_registry 5 (TransitionIn (timelines silent_world 5))"
    by (simp add: s k)
  have own_c: "own_keeps_machine example_registry 5 (TransitionOut (timelines closing_world 5))"
    by (simp add: f k)
  have s_end: "\<not> IsTransitioningIn (timelines (Update_entity example_registry 1 5 silent_world) 5)"
    using Update_entity_step_in [OF own_s s(1) s(3), of 1]
    by (simp add: machine_eq_def timeline_step_def silent_world_def world0_def timeline0_def)
  have c_end: "\<not> Active (timelines (Update_entity example_registry 1 5 closing_world) 5)"
    using Update_entity_step_out [OF own_c f(1) f(4), of 1]
    by (simp add: machine_eq_def timeline_step_def closing_world_def world0_def timeline0_def)
  have le: "(1::real) \<le> 3" by simp
  have d2: "TransitionDuration (timelines closing_world 5) \<le> 2"
    by (simp add: closing_world_def world0_def timeline0_def)
  note T = progress_monotone_clamped [OF f(9), where ?t1.0 = 1 and ?t2.0 = 3 and t = 100]
  note S = progress_monotone_clamped [OF s(5)]
  note a = T [THEN conjunct1, THEN mp, OF le]
  note b = T [THEN conjunct2, THEN conjunct1]
  note c = progress_monotone_clamped [OF f(9), where t = 2, THEN conjunct2, THEN conjunct2,
             THEN conjunct1, THEN mp, OF d2]
  have hin: "own_keeps_machine example_registry 5 (TransitionIn (timelines silent_world 5))
      \<and> visible silent_world 5
      \<and> Active (timelines silent_world 5) \<and> IsTransitioningIn (timelines silent_world 5)
      \<and> \<not> IsTransitioningIn (timelines (Update_entity example_registry 1 5 silent_world) 5)"
    using own_s s s_end by simp
  have hout: "own_keeps_machine example_registry 5 (TransitionOut (timelines closing_world 5))
      \<and> visible closing_world 5
      \<and> Active (timelines closing_world 5) \<and> \<not> IsTransitioningIn (timelines closing_world 5)
      \<and> \<not> Active (timelines (Update_entity example_registry 1 5 closing_world) 5)"
    using own_c f c_end by simp
  note d = S [THEN conjunct2, THEN conjunct2, THEN conjunct2, THEN conjunct1, THEN mp, OF hin]
  note e = T [THEN conjunct2, THEN conjunct2, THEN conjunct2, THEN conjunct2, THEN mp, OF hout]
  have half: "progress 1 (TransitionDuration (timelines closing_world 5)) = 1 / 2"
    by (simp add: progress_def closing_world_def world0_def timeline0_def)
  show ?thesis
    using f(9) le a half b d2 c own_s s(1) s(2) s(3) s_end d own_c f(1) f(3) f(4) c_end e
    by (intro conjI)
qed

section \<open>The render order\<close>

lemma layer_less_key: "layer_less ls a b \<longleftrightarrow> render_key ls a < render_key ls b"
  by (auto simp add: layer_less_def render_key_def Let_def less_prod_def)

lemma inj_render_key: "inj (render_key ls)"
  by (rule injI) (simp add: render_key_def)

lemma render_key_eq: "render_key ls a = render_key ls b \<longleftrightarrow> a = b"
  by (auto simp add: render_key_def)

lemma mset_place: "mset (place cmp x xs) = add_mset x (mset xs)"
  by (induction xs) simp_all

lemma mset_std_sort: "mset (std_sort cmp xs) = mset xs"
  by (induction xs) (simp_all add: mset_place)

lemma set_place: "set (place cmp x xs) = insert x (set xs)"
  using mset_place [of cmp x xs, THEN arg_cong, of set_mset] by simp

lemma set_std_sort: "set (std_sort cmp xs) = set xs"
  using mset_std_sort [of cmp xs, THEN arg_cong, of set_mset] by simp

lemma sorted_place:
  assumes "x \<notin> set xs" and "sorted_wrt (layer_less ls) xs"
  shows "sorted_wrt (layer_less ls) (place (layer_less ls) x xs)"
  using assms
proof (induction xs)
  case Nil
  show ?case by simp
next
  case (Cons y ys)
  show ?case
  proof (cases "layer_less ls x y")
    case True
    have "layer_less ls x z" if "z \<in> set ys" for z
      using True Cons.prems(2) that by (auto simp add: layer_less_key)
    then show ?thesis using True Cons.prems by simp
  next
    case False
    with Cons.prems(1) have "layer_less ls y x"
      by (auto simp add: layer_less_key render_key_eq not_less order_le_less)
    then show ?thesis
      using False Cons by (auto simp add: set_place)
  qed
qed

lemma sorted_std_sort:
  "distinct xs \<Longrightarrow> sorted_wrt (layer_less ls) (std_sort (layer_less ls) xs)"
  by (induction xs) (simp_all add: sorted_place set_std_sort)

lemma ordered_arrangement_unique:
  assumes p: "mset ys = mset zs"
    and sy: "sorted_wrt (\<lambda>a b. \<not> layer_less ls b a) ys"
    and sz: "sorted_wrt (\<lambda>a b. \<not> layer_less ls b a) zs"
  shows "ys = zs"
proof -
  have le: "(\<lambda>a b. \<not> layer_less ls b a) = (\<lambda>a b. render_key ls a \<le> render_key ls b)"
    by (intro ext) (simp add: layer_less_key not_less)
  have "sorted (map (render_key ls) ys)" and "sorted (map (render_key ls) zs)"
    using sy sz unfolding le by (simp_all add: sorted_map)
  moreover have "mset (map (render_key ls) ys) = mset (map (render_key ls) zs)"
    using p by simp
  ultimately have "map (render_key ls) ys = map (render_key ls) zs"
    by (metis properties_for_sort)
  then show ?thesis
    using inj_render_key [of ls] by simp
qed

lemma strict_implies_weak:
  assumes "sorted_wrt (layer_less ls) xs"
  shows "sorted_wrt (\<lambda>a b. \<not> layer_less ls b a) xs"
proof (rule sorted_wrt_mono_rel [OF _ assms])
  fix x y
  assume "layer_less ls x y"
  then show "\<not> layer_less ls y x"
    by (simp add: layer_less_key)
qed

text \<open>
  C8. For the distinct members of the rendering system, \<open>sortedEntities\<close> is a
  rearrangement of the members that is strictly ascending for the comparator. The
  comparator is the lexicographic order on (layer, sort id, entity id); it is irreflexive
  and transitive, any two different entities are comparable, and incomparability is
  transitive, so it is a strict weak ordering and, on entities, a strict total order.
  Every rearrangement of the members in which no element precedes a smaller one is
  \<open>sortedEntities\<close>: the order of the output is fully determined, whatever algorithm the
  sort uses and whether or not it is stable.
\<close>

theorem render_order_strict_total:
  assumes d: "distinct members"
  shows
    "sorted_wrt (layer_less ls) (sortedEntities ls members)
     \<and> mset (sortedEntities ls members) = mset members
     \<and> (layer_less ls a b \<longleftrightarrow>
          layerID (ls a) < layerID (ls b)
          \<or> (layerID (ls a) = layerID (ls b)
              \<and> (sortID (ls a) < sortID (ls b)
                  \<or> (sortID (ls a) = sortID (ls b) \<and> a < b))))
     \<and> (layer_less ls a b \<longleftrightarrow> render_key ls a < render_key ls b)
     \<and> \<not> layer_less ls a a
     \<and> (layer_less ls a b \<and> layer_less ls b c \<longrightarrow> layer_less ls a c)
     \<and> (a \<noteq> b \<longrightarrow> layer_less ls a b \<or> layer_less ls b a)
     \<and> (\<not> layer_less ls a b \<and> \<not> layer_less ls b a
          \<and> \<not> layer_less ls b c \<and> \<not> layer_less ls c b \<longrightarrow>
          \<not> layer_less ls a c \<and> \<not> layer_less ls c a)
     \<and> (\<forall>ys. mset ys = mset members \<and> sorted_wrt (\<lambda>x y. \<not> layer_less ls y x) ys \<longrightarrow>
               ys = sortedEntities ls members)"
proof -
  have s: "sorted_wrt (layer_less ls) (sortedEntities ls members)"
    using d by (simp add: sortedEntities_def sorted_std_sort)
  have m: "mset (sortedEntities ls members) = mset members"
    by (simp add: sortedEntities_def mset_std_sort)
  have lex: "layer_less ls a b \<longleftrightarrow>
          layerID (ls a) < layerID (ls b)
          \<or> (layerID (ls a) = layerID (ls b)
              \<and> (sortID (ls a) < sortID (ls b)
                  \<or> (sortID (ls a) = sortID (ls b) \<and> a < b)))"
    by (auto simp add: layer_less_def Let_def)
  have irr: "\<not> layer_less ls a a"
    by (simp add: layer_less_key)
  have tr: "layer_less ls a b \<and> layer_less ls b c \<longrightarrow> layer_less ls a c"
    by (auto simp add: layer_less_key)
  have tot: "a \<noteq> b \<longrightarrow> layer_less ls a b \<or> layer_less ls b a"
    using render_key_eq [of ls a b] by (auto simp add: layer_less_key)
  have inc: "\<not> layer_less ls a b \<and> \<not> layer_less ls b a
          \<and> \<not> layer_less ls b c \<and> \<not> layer_less ls c b \<longrightarrow>
          \<not> layer_less ls a c \<and> \<not> layer_less ls c a"
    by (auto simp add: layer_less_key)
  have uniq: "ys = sortedEntities ls members"
    if "mset ys = mset members \<and> sorted_wrt (\<lambda>x y. \<not> layer_less ls y x) ys" for ys
    using that m strict_implies_weak [OF s]
    by (intro ordered_arrangement_unique [of ys "sortedEntities ls members" ls]) simp_all
  show ?thesis
    using s m lex layer_less_key [of ls a b] irr tr tot inc uniq by blast
qed

theorem render_order_strict_total_witness:
  "distinct [2, 3, 4, 7 :: Entity]
   \<and> sorted_wrt (layer_less example_layers) (sortedEntities example_layers [2, 3, 4, 7])
   \<and> mset (sortedEntities example_layers [2, 3, 4, 7]) = mset [2, 3, 4, 7]
   \<and> layer_less example_layers 4 2 \<and> layer_less example_layers 2 3
   \<and> layer_less example_layers 4 3
   \<and> \<not> layer_less example_layers 3 3
   \<and> (2::Entity) \<noteq> 3
   \<and> mset [4, 2, 3, 7] = mset [2, 3, 4, 7 :: Entity]
   \<and> sorted_wrt (\<lambda>x y. \<not> layer_less example_layers y x) [4, 2, 3, 7]
   \<and> [4, 2, 3, 7] = sortedEntities example_layers [2, 3, 4, 7]"
proof -
  have d: "distinct [2, 3, 4, 7 :: Entity]" by simp
  note T = render_order_strict_total [OF d, where ls = example_layers and a = 4 and b = 2 and c = 3]
  have ab: "layer_less example_layers 4 2 \<and> layer_less example_layers 2 3"
    by (simp add: layer_less_def example_layers_def)
  have ne: "(2::Entity) \<noteq> 3" by simp
  have perm: "mset [4, 2, 3, 7] = mset [2, 3, 4, 7 :: Entity]" by simp
  have ord: "sorted_wrt (\<lambda>x y. \<not> layer_less example_layers y x) [4, 2, 3, 7]"
    by (simp add: layer_less_def example_layers_def)
  note s = T [THEN conjunct1]
  note m = T [THEN conjunct2, THEN conjunct1]
  note tr = T [THEN conjunct2, THEN conjunct2, THEN conjunct2, THEN conjunct2, THEN conjunct2,
               THEN conjunct1, THEN mp, OF ab]
  note irr = render_order_strict_total [OF d, where ls = example_layers and a = 3,
               THEN conjunct2, THEN conjunct2, THEN conjunct2, THEN conjunct2, THEN conjunct1]
  note uniq = T [THEN conjunct2, THEN conjunct2, THEN conjunct2, THEN conjunct2, THEN conjunct2,
                 THEN conjunct2, THEN conjunct2, THEN conjunct2, THEN spec, THEN mp,
                 OF conjI [OF perm ord]]
  show ?thesis
    using d s m ab tr irr ne perm ord uniq by (intro conjI) simp_all
qed

end
